theory Spec2Isabelle
  imports Main
begin

section \<open>JavaScript values\<close>

text \<open>
  The values a schema is applied to.  Numbers are the integer-valued ones; an object is the
  list of its own enumerable string-keyed properties in enumeration order; a Map is the list
  of its entries and a Set the list of its members, both in iteration order.  Functions and
  symbols are outside this universe, and so are the properties a value inherits from its
  prototype: the keys of objects and of schemas are taken not to be names such as
  \<open>toString\<close>, \<open>valueOf\<close> or \<open>constructor\<close>.
\<close>

datatype jsval =
    JUndefined
  | JNull
  | JBool bool
  | JNum int
  | JStr string
  | JArray "jsval list"
  | JObject "(string \<times> jsval) list"
  | JMap "(jsval \<times> jsval) list"
  | JSet "jsval list"

fun typeof :: "jsval \<Rightarrow> string" where
  "typeof JUndefined = ''undefined''"
| "typeof JNull = ''object''"
| "typeof (JBool b) = ''boolean''"
| "typeof (JNum n) = ''number''"
| "typeof (JStr s) = ''string''"
| "typeof (JArray xs) = ''object''"
| "typeof (JObject kvs) = ''object''"
| "typeof (JMap kvs) = ''object''"
| "typeof (JSet xs) = ''object''"

fun isArray :: "jsval \<Rightarrow> bool" where
  "isArray (JArray xs) = True"
| "isArray v = False"

subsection \<open>Number and value to string conversion\<close>

definition digit :: "nat \<Rightarrow> char" where
  "digit d = ''0123456789'' ! d"

function show_nat :: "nat \<Rightarrow> string" where
  "show_nat n = (if n < 10 then [digit n] else show_nat (n div 10) @ [digit (n mod 10)])"
  by pat_completeness auto
termination
  by (relation "measure id") auto

declare show_nat.simps [simp del]

definition show_int :: "int \<Rightarrow> string" where
  "show_int i = (if i < 0 then ''-'' @ show_nat (nat (- i)) else show_nat (nat i))"

text \<open>\<open>xs.join(sep)\<close> on a list of strings.\<close>

fun join :: "string \<Rightarrow> string list \<Rightarrow> string" where
  "join sep [] = ''''"
| "join sep [x] = x"
| "join sep (x # y # ys) = x @ sep @ join sep (y # ys)"

text \<open>The string a template literal \<open>`${v}`\<close> inserts for a value.\<close>

fun toString :: "jsval \<Rightarrow> string" where
  "toString JUndefined = ''undefined''"
| "toString JNull = ''null''"
| "toString (JBool b) = (if b then ''true'' else ''false'')"
| "toString (JNum n) = show_int n"
| "toString (JStr s) = s"
| "toString (JArray xs) =
     join '','' (map (\<lambda>x. if x = JUndefined \<or> x = JNull then '''' else toString x) xs)"
| "toString (JObject kvs) = ''[object Object]''"
| "toString (JMap kvs) = ''[object Map]''"
| "toString (JSet xs) = ''[object Set]''"

text \<open>
  A path or origin argument is a string or is left out (\<open>None\<close>, JavaScript's
  \<open>undefined\<close>).  \<open>tmpl\<close> is what \<open>`${path}`\<close> inserts, \<open>truthy\<close> is
  the test \<open>path ? ... : ...\<close>.
\<close>

definition tmpl :: "string option \<Rightarrow> string" where
  "tmpl p = (case p of None \<Rightarrow> ''undefined'' | Some s \<Rightarrow> s)"

definition truthy :: "string option \<Rightarrow> bool" where
  "truthy p = (case p of None \<Rightarrow> False | Some s \<Rightarrow> s \<noteq> '''')"

section \<open>Issues, results and the validator contract\<close>

text \<open>
  One validation failure.  \<open>path\<close> and \<open>origin\<close> are optional because the source
  builds issues from arguments that may be left out, and the tuple length issue has no
  \<open>origin\<close> field at all.
\<close>

record issue =
  message :: string
  expected :: string
  received :: jsval
  path :: "string option"
  origin :: "string option"

text \<open>
  An element of a result array is an issue or a boolean: an extension function may answer
  \<open>true\<close> or \<open>false\<close> instead of an issue array, and \<open>flatMap\<close> keeps such an answer
  as an element.
\<close>

datatype elem = Iss issue | Flag bool

datatype jserror = TypeError | VError string "elem list"

text \<open>What a call returns: an array, or one value that is not an array.\<close>

datatype vout = Arr "elem list" | Single elem

type_synonym validator = "jsval \<Rightarrow> string option \<Rightarrow> string option \<Rightarrow> jserror + vout"

definition bindE :: "jserror + 'a \<Rightarrow> ('a \<Rightarrow> jserror + 'b) \<Rightarrow> jserror + 'b" where
  "bindE m f = (case m of Inl e \<Rightarrow> Inl e | Inr x \<Rightarrow> f x)"

text \<open>One level of flattening, as \<open>flatMap\<close> and \<open>flat()\<close> do it.\<close>

fun flat1 :: "vout \<Rightarrow> elem list" where
  "flat1 (Arr xs) = xs"
| "flat1 (Single e) = [e]"

text \<open>\<open>xs.flatMap(f)\<close>: every call is made, in order; the first exception ends it.\<close>

fun flatMapE :: "('a \<Rightarrow> jserror + vout) \<Rightarrow> 'a list \<Rightarrow> jserror + elem list" where
  "flatMapE f [] = Inr []"
| "flatMapE f (x # xs) =
     bindE (f x) (\<lambda>r. bindE (flatMapE f xs) (\<lambda>rs. Inr (flat1 r @ rs)))"

text \<open>Spreading \<open>...r\<close> into an array literal: a value that is not iterable raises.\<close>

fun spread :: "vout \<Rightarrow> jserror + elem list" where
  "spread (Arr xs) = Inr xs"
| "spread (Single e) = Inl TypeError"

text \<open>\<open>r.length === 0\<close> and the truth value of \<open>r.length\<close>.\<close>

fun length_is_0 :: "vout \<Rightarrow> bool" where
  "length_is_0 (Arr xs) = (xs = [])"
| "length_is_0 (Single e) = False"

fun length_truthy :: "vout \<Rightarrow> bool" where
  "length_truthy (Arr xs) = (xs \<noteq> [])"
| "length_truthy (Single e) = False"

section \<open>The leaf constructor\<close>

text \<open>
  The default parameters \<open>path = ""\<close> and \<open>origin = "value"\<close>: the default stands in
  for an argument that is left out.
\<close>

definition default_path :: "string option \<Rightarrow> string" where
  "default_path p = (case p of None \<Rightarrow> [] | Some s \<Rightarrow> s)"

definition default_origin :: "string option \<Rightarrow> string" where
  "default_origin org = (case org of None \<Rightarrow> ''value'' | Some s \<Rightarrow> s)"

definition define_v ::
  "string \<Rightarrow> (jsval \<Rightarrow> jserror + bool) \<Rightarrow> string \<Rightarrow> validator list \<Rightarrow> validator" where
  "define_v tp validate msg validations = (\<lambda>value p org.
     bindE (validate value) (\<lambda>ok.
       if \<not> ok
       then Inr (Arr [Iss \<lparr>message = (if msg \<noteq> [] then msg
                                      else ''Expected '' @ tp @ '', received '' @ typeof value),
                          expected = tp, received = value,
                          path = Some (default_path p),
                          origin = Some (default_origin org)\<rparr>])
       else bindE (flatMapE (\<lambda>v. v value (Some (default_path p)) None) validations)
              (\<lambda>issues. Inr (Arr (filter (\<lambda>v. v \<noteq> Flag True) issues)))))"

section \<open>Primitive validators\<close>

definition string_v :: "string \<Rightarrow> validator list \<Rightarrow> validator" where
  "string_v = define_v ''string'' (\<lambda>value. Inr (typeof value = ''string''))"

definition boolean :: "string \<Rightarrow> validator list \<Rightarrow> validator" where
  "boolean = define_v ''boolean'' (\<lambda>value. Inr (typeof value = ''boolean''))"

definition number :: "string \<Rightarrow> validator list \<Rightarrow> validator" where
  "number = define_v ''number'' (\<lambda>value. Inr (typeof value = ''number''))"

definition never :: "string \<Rightarrow> validator list \<Rightarrow> validator" where
  "never = define_v ''never'' (\<lambda>value. Inr False)"

definition any_v :: "string \<Rightarrow> validator list \<Rightarrow> validator" where
  "any_v = define_v ''any'' (\<lambda>value. Inr True)"

definition optional :: "validator \<Rightarrow> string \<Rightarrow> validator list \<Rightarrow> validator" where
  "optional schema = define_v ''optional''
     (\<lambda>v. if v = JUndefined then Inr True
          else bindE (schema v None None) (\<lambda>r. Inr (length_is_0 r)))"

definition nullable :: "validator \<Rightarrow> string \<Rightarrow> validator list \<Rightarrow> validator" where
  "nullable schema = define_v ''nullable''
     (\<lambda>v. if v = JNull then Inr True
          else bindE (schema v None None) (\<lambda>r. Inr (length_is_0 r)))"

section \<open>Own properties of a value\<close>

text \<open>
  \<open>indexed\<close> pairs each element with its index, as the \<open>(item, index)\<close> callbacks
  of the source receive them.
\<close>

definition indexed :: "'a list \<Rightarrow> (nat \<times> 'a) list" where
  "indexed xs = zip [0..<length xs] xs"

text \<open>
  \<open>Object.entries(value)\<close>: the own enumerable string-keyed properties.  It raises on
  \<open>undefined\<close> and \<open>null\<close>; an array and a string have their indices; a Map and a Set
  have none.
\<close>

fun entries :: "jsval \<Rightarrow> jserror + (string \<times> jsval) list" where
  "entries JUndefined = Inl TypeError"
| "entries JNull = Inl TypeError"
| "entries (JBool b) = Inr []"
| "entries (JNum n) = Inr []"
| "entries (JStr s) = Inr (map (\<lambda>(i, c). (show_nat i, JStr [c])) (indexed s))"
| "entries (JArray xs) = Inr (map (\<lambda>(i, x). (show_nat i, x)) (indexed xs))"
| "entries (JObject kvs) = Inr kvs"
| "entries (JMap kvs) = Inr []"
| "entries (JSet xs) = Inr []"

definition keys :: "jsval \<Rightarrow> jserror + string list" where
  "keys value = bindE (entries value) (\<lambda>es. Inr (map fst es))"

text \<open>
  \<open>value[key]\<close>: an own property, the \<open>length\<close> of an array or a string, the
  \<open>size\<close> of a Map or a Set, and \<open>undefined\<close> for a name the value does not have.
\<close>

fun get_prop :: "jsval \<Rightarrow> string \<Rightarrow> jserror + jsval" where
  "get_prop JUndefined key = Inl TypeError"
| "get_prop JNull key = Inl TypeError"
| "get_prop (JStr s) key =
     (if key = ''length'' then Inr (JNum (int (length s)))
      else Inr (case map_of (map (\<lambda>(i, c). (show_nat i, JStr [c])) (indexed s)) key of
                  None \<Rightarrow> JUndefined | Some v \<Rightarrow> v))"
| "get_prop (JArray xs) key =
     (if key = ''length'' then Inr (JNum (int (length xs)))
      else Inr (case map_of (map (\<lambda>(i, x). (show_nat i, x)) (indexed xs)) key of
                  None \<Rightarrow> JUndefined | Some v \<Rightarrow> v))"
| "get_prop (JObject kvs) key =
     Inr (case map_of kvs key of None \<Rightarrow> JUndefined | Some v \<Rightarrow> v)"
| "get_prop (JMap kvs) key =
     Inr (if key = ''size'' then JNum (int (length kvs)) else JUndefined)"
| "get_prop (JSet xs) key =
     Inr (if key = ''size'' then JNum (int (length xs)) else JUndefined)"
| "get_prop v key = Inr JUndefined"

section \<open>Composite validators\<close>

text \<open>The shape test shared by \<open>record\<close> and \<open>object\<close>.\<close>

definition is_plain_object :: "jsval \<Rightarrow> bool" where
  "is_plain_object value = (value \<noteq> JNull \<and> typeof value = ''object'' \<and> \<not> isArray value)"

text \<open>\<open>`${path}${path ? '.' : ''}${key}`\<close> and \<open>`${path}[${index}]`\<close>.\<close>

definition key_path :: "string option \<Rightarrow> string \<Rightarrow> string" where
  "key_path p key = tmpl p @ (if truthy p then ''.'' else '''') @ key"

definition index_path :: "string option \<Rightarrow> nat \<Rightarrow> string" where
  "index_path p index = tmpl p @ ''['' @ show_nat index @ '']''"

definition record_entry :: "validator \<Rightarrow> validator \<Rightarrow> validator" where
  "record_entry keySchema valueSchema = (\<lambda>value p org.
     bindE (entries value) (\<lambda>es.
       bindE (flatMapE (\<lambda>(key, val).
                bindE (keySchema (JStr key) (Some (key_path p key)) (Some ''key'')) (\<lambda>kr.
                bindE (spread kr) (\<lambda>ks.
                bindE (valueSchema val (Some (key_path p key)) None) (\<lambda>vr.
                bindE (spread vr) (\<lambda>vs. Inr (Arr (ks @ vs))))))) es)
         (\<lambda>issues. Inr (Arr issues))))"

definition record_v ::
  "validator \<Rightarrow> validator \<Rightarrow> string \<Rightarrow> validator list \<Rightarrow> validator" where
  "record_v keySchema valueSchema msg validations =
     define_v ''record'' (\<lambda>value. Inr (is_plain_object value)) msg
       (record_entry keySchema valueSchema # validations)"

definition array_entry :: "validator \<Rightarrow> validator" where
  "array_entry schema = (\<lambda>value p org.
     case value of
       JArray xs \<Rightarrow>
         bindE (flatMapE (\<lambda>(index, item). schema item (Some (index_path p index)) None)
                  (indexed xs))
           (\<lambda>issues. Inr (Arr issues))
     | _ \<Rightarrow> Inl TypeError)"

definition array :: "validator \<Rightarrow> string \<Rightarrow> validator list \<Rightarrow> validator" where
  "array schema msg validations =
     define_v ''array'' (\<lambda>value. Inr (isArray value)) msg (array_entry schema # validations)"

definition object_entry :: "(string \<times> validator) list \<Rightarrow> bool \<Rightarrow> validator" where
  "object_entry schema exact = (\<lambda>value p org.
     bindE (if exact
            then bindE (keys value)
                   (\<lambda>ks. Inr (filter (\<lambda>key. key \<notin> set (map fst schema)) ks))
            else Inr [])
       (\<lambda>extraKeys.
          if extraKeys \<noteq> []
          then Inr (Arr [Iss \<lparr>message = ''Unexpected keys found: '' @ join '', '' extraKeys,
                             expected = ''object'', received = value,
                             path = p, origin = Some ''key''\<rparr>])
          else bindE (flatMapE (\<lambda>key.
                        case map_of schema key of
                          None \<Rightarrow> Inl TypeError
                        | Some field \<Rightarrow>
                            bindE (get_prop value key)
                              (\<lambda>v. field v (Some (key_path p key)) None))
                      (map fst schema))
                 (\<lambda>issues. Inr (Arr issues))))"

definition object ::
  "(string \<times> validator) list \<Rightarrow> string \<Rightarrow> validator list \<Rightarrow> bool \<Rightarrow> validator" where
  "object schema msg validations exact =
     define_v ''object'' (\<lambda>value. Inr (is_plain_object value)) msg
       (object_entry schema exact # validations)"

definition strict :: "(string \<times> validator) list \<Rightarrow> string \<Rightarrow> validator list \<Rightarrow> validator" where
  "strict schema msg validations = object schema msg validations True"

definition tuple_entry :: "validator list \<Rightarrow> validator" where
  "tuple_entry schemas = (\<lambda>value p org.
     bindE (get_prop value ''length'') (\<lambda>len.
       if len \<noteq> JNum (int (length schemas))
       then Inr (Arr [Iss \<lparr>message = ''Expected tuple of length '' @ show_nat (length schemas)
                                       @ '', received '' @ toString len,
                          expected = ''tuple'', received = len,
                          path = p, origin = None\<rparr>])
       else bindE (flatMapE (\<lambda>(index, schema).
                     bindE (get_prop value (show_nat index))
                       (\<lambda>item. schema item (Some (index_path p index)) None))
                   (indexed schemas))
              (\<lambda>issues. Inr (Arr issues))))"

definition tuple :: "validator list \<Rightarrow> string \<Rightarrow> validator list \<Rightarrow> validator" where
  "tuple schemas msg validations =
     define_v ''tuple'' (\<lambda>value. Inr (isArray value)) msg (tuple_entry schemas # validations)"

section \<open>Constraint validators\<close>

text \<open>
  The test of \<open>min\<close>: the length of an array or a string, the size of a Map or a Set,
  and otherwise \<open>value >= minValue\<close>, where \<open>null\<close> counts as 0, \<open>true\<close> as 1,
  \<open>false\<close> as 0, and \<open>undefined\<close> and a plain object are not numbers, so the
  comparison is false.
\<close>

fun min_test :: "int \<Rightarrow> jsval \<Rightarrow> bool" where
  "min_test minValue (JArray xs) = (int (length xs) \<ge> minValue)"
| "min_test minValue (JStr s) = (int (length s) \<ge> minValue)"
| "min_test minValue (JMap kvs) = (int (length kvs) \<ge> minValue)"
| "min_test minValue (JSet xs) = (int (length xs) \<ge> minValue)"
| "min_test minValue (JNum n) = (n \<ge> minValue)"
| "min_test minValue (JBool b) = ((if b then 1 else 0) \<ge> minValue)"
| "min_test minValue JNull = (0 \<ge> minValue)"
| "min_test minValue JUndefined = False"
| "min_test minValue (JObject kvs) = False"

fun max_test :: "int \<Rightarrow> jsval \<Rightarrow> bool" where
  "max_test maxValue (JArray xs) = (int (length xs) \<le> maxValue)"
| "max_test maxValue (JStr s) = (int (length s) \<le> maxValue)"
| "max_test maxValue (JMap kvs) = (int (length kvs) \<le> maxValue)"
| "max_test maxValue (JSet xs) = (int (length xs) \<le> maxValue)"
| "max_test maxValue (JNum n) = (n \<le> maxValue)"
| "max_test maxValue (JBool b) = ((if b then 1 else 0) \<le> maxValue)"
| "max_test maxValue JNull = (0 \<le> maxValue)"
| "max_test maxValue JUndefined = False"
| "max_test maxValue (JObject kvs) = False"

definition min_v :: "int \<Rightarrow> validator list \<Rightarrow> validator" where
  "min_v minValue validations =
     define_v ''min'' (\<lambda>value. Inr (min_test minValue value))
       (''Min '' @ show_int minValue) validations"

definition max_v :: "int \<Rightarrow> validator list \<Rightarrow> validator" where
  "max_v maxValue validations =
     define_v ''max'' (\<lambda>value. Inr (max_test maxValue value))
       (''Max '' @ show_int maxValue) validations"

section \<open>Combinators\<close>

definition or_v :: "validator list \<Rightarrow> validator" where
  "or_v schemas = (\<lambda>value p org.
     bindE (flatMapE (\<lambda>schema. schema value p None) schemas)
       (\<lambda>issues. Inr (Arr (if length issues = length schemas then issues else []))))"

definition and_v :: "validator list \<Rightarrow> validator" where
  "and_v schemas = (\<lambda>value p org.
     bindE (flatMapE (\<lambda>schema. schema value p None) schemas)
       (\<lambda>issues. Inr (Arr issues)))"

definition lazy :: "(unit \<Rightarrow> validator) \<Rightarrow> validator" where
  "lazy resolveSchema = (\<lambda>value p org. resolveSchema () value p None)"

definition transform :: "validator \<Rightarrow> (jsval \<Rightarrow> jsval) \<Rightarrow> validator" where
  "transform schema transformer = (\<lambda>value p org. schema (transformer value) None None)"

section \<open>Result wrappers\<close>

definition is_v :: "validator \<Rightarrow> jsval \<Rightarrow> jserror + bool" where
  "is_v schema value = bindE (schema value None None) (\<lambda>r. Inr (length_is_0 r))"

definition not_v :: "validator \<Rightarrow> string \<Rightarrow> validator" where
  "not_v schema msg =
     define_v ''not'' (\<lambda>value. bindE (is_v schema value) (\<lambda>b. Inr (\<not> b))) msg []"

text \<open>
  \<open>issues[0]?.message\<close> as the message of the error: the message of a first element that
  is an issue; a boolean has no message, and an error built without one has the empty
  message.
\<close>

fun first_message :: "elem list \<Rightarrow> string" where
  "first_message (Iss i # xs) = message i"
| "first_message xs = ''''"

definition parse :: "validator \<Rightarrow> jsval \<Rightarrow> jserror + jsval" where
  "parse schema value =
     bindE (schema value None None) (\<lambda>issues.
       if length_truthy issues
       then Inl (VError (first_message (flat1 issues)) (flat1 issues))
       else Inr value)"

datatype safe_result = Success jsval | Failure jserror

fun success :: "safe_result \<Rightarrow> bool" where
  "success (Success d) = True"
| "success (Failure e) = False"

definition safeParse :: "validator \<Rightarrow> jsval \<Rightarrow> jserror + safe_result" where
  "safeParse schema value =
     bindE (schema value None None) (\<lambda>issues.
       if length_truthy issues
       then Inr (Failure (VError (first_message (flat1 issues)) (flat1 issues)))
       else Inr (Success value))"

section \<open>The TypeScript variant of optional and nullable\<close>

text \<open>
  The repository holds a second, partial implementation (\<open>src/try.ts\<close>), whose
  \<open>optional\<close> and \<open>nullable\<close> are not built by \<open>define\<close>: they call the wrapped
  schema with the path and origin they were given and append the results of their own
  extensions.  \<open>r.concat(xs)\<close> exists for an array only.
\<close>

definition concat_v :: "vout \<Rightarrow> elem list \<Rightarrow> jserror + vout" where
  "concat_v r xs = (case r of Arr ys \<Rightarrow> Inr (Arr (ys @ xs)) | Single e \<Rightarrow> Inl TypeError)"

definition optional_ts :: "validator \<Rightarrow> string \<Rightarrow> validator list \<Rightarrow> validator" where
  "optional_ts schema msg validations = (\<lambda>value p org.
     if value = JUndefined then Inr (Arr [])
     else bindE (schema value p org) (\<lambda>r.
            bindE (flatMapE (\<lambda>v. v value p org) validations) (\<lambda>extra. concat_v r extra)))"

definition nullable_ts :: "validator \<Rightarrow> string \<Rightarrow> validator list \<Rightarrow> validator" where
  "nullable_ts schema msg validations = (\<lambda>value p org.
     if value = JNull then Inr (Arr [])
     else bindE (schema value p org) (\<lambda>r.
            bindE (flatMapE (\<lambda>v. v value p org) validations) (\<lambda>extra. concat_v r extra)))"

section \<open>Basic facts about the model\<close>

lemma bindE_Inr [simp]: "bindE (Inr x) f = f x"
  by (simp add: bindE_def)

lemma bindE_Inl [simp]: "bindE (Inl e) f = Inl e"
  by (simp add: bindE_def)

lemma flatMapE_all_return:
  assumes "\<And>x. x \<in> set xs \<Longrightarrow> f x = Inr (res x)"
  shows "flatMapE f xs = Inr (concat (map (\<lambda>x. flat1 (res x)) xs))"
  using assms by (induction xs) simp_all

lemma flatMapE_cong:
  assumes "\<And>x. x \<in> set xs \<Longrightarrow> f x = g x"
  shows "flatMapE f xs = flatMapE g xs"
  using assms by (induction xs) simp_all

lemma digit_inj:
  assumes "d < 10" and "e < 10" and "digit d = digit e"
  shows "d = e"
proof -
  have "distinct ''0123456789''" by simp
  moreover have "d < length ''0123456789''" "e < length ''0123456789''"
    using assms(1,2) by simp_all
  ultimately show ?thesis
    using assms(3) unfolding digit_def by (simp only: nth_eq_iff_index_eq)
qed

lemma digit_not_h:
  assumes "d < 10"
  shows "digit d \<noteq> CHR ''h''"
proof -
  have "d < length ''0123456789''" using assms by simp
  then have "''0123456789'' ! d \<in> set ''0123456789''" by (rule nth_mem)
  then show ?thesis unfolding digit_def by auto
qed

lemma show_nat_last: "show_nat n \<noteq> [] \<and> last (show_nat n) = digit (n mod 10)"
  by (subst show_nat.simps, subst show_nat.simps) simp

lemma show_nat_not_length: "show_nat n \<noteq> ''length''"
proof
  assume "show_nat n = ''length''"
  then have "last (show_nat n) = CHR ''h''" by simp
  then show False using show_nat_last[of n] digit_not_h[of "n mod 10"] by simp
qed

lemma show_nat_length_one: "(length (show_nat n) = 1) = (n < 10)"
proof (cases "n < 10")
  case True
  then show ?thesis by (subst show_nat.simps) simp
next
  case False
  then show ?thesis
    using show_nat_last[of "n div 10"]
    by (subst show_nat.simps) (simp add: Suc_le_eq)
qed

lemma show_nat_inj: "show_nat m = show_nat n \<Longrightarrow> m = n"
proof (induction m arbitrary: n rule: show_nat.induct)
  case (1 m)
  show ?case
  proof (cases "m < 10")
    case True
    then have "length (show_nat m) = 1" using show_nat_length_one[of m] by simp
    then have n: "n < 10" using "1.prems" show_nat_length_one[of n] by simp
    have "show_nat m = [digit m]" "show_nat n = [digit n]"
      using True n by (subst show_nat.simps, simp)+
    then show ?thesis using "1.prems" True n digit_inj by simp
  next
    case False
    then have "length (show_nat m) \<noteq> 1" using show_nat_length_one[of m] by simp
    then have n: "\<not> n < 10" using "1.prems" show_nat_length_one[of n] by simp
    have m_eq: "show_nat m = show_nat (m div 10) @ [digit (m mod 10)]"
      using False by (subst show_nat.simps) simp
    have n_eq: "show_nat n = show_nat (n div 10) @ [digit (n mod 10)]"
      using n by (subst show_nat.simps) simp
    from "1.prems" m_eq n_eq
    have a: "show_nat (m div 10) = show_nat (n div 10)"
      and b: "digit (m mod 10) = digit (n mod 10)" by simp_all
    from "1.IH"[OF False a] have "m div 10 = n div 10" .
    moreover from b have "m mod 10 = n mod 10" by (intro digit_inj) simp_all
    ultimately show ?thesis by (metis div_mult_mod_eq)
  qed
qed

lemma indexed_nth: "i < length xs \<Longrightarrow> (i, xs ! i) \<in> set (indexed xs)"
  by (simp add: indexed_def set_zip) (rule exI[of _ i], simp)

lemma map_fst_indexed: "map fst (indexed xs) = [0..<length xs]"
  by (simp add: indexed_def)

lemma indexed_mem: "(i, x) \<in> set (indexed xs) \<Longrightarrow> i < length xs \<and> x = xs ! i"
  by (auto simp: indexed_def set_zip)

lemma map_of_indexed:
  assumes "i < length xs"
  shows "map_of (map (\<lambda>(i, x). (show_nat i, x)) (indexed xs)) (show_nat i) = Some (xs ! i)"
proof -
  have "map fst (map (\<lambda>(i, x). (show_nat i, x)) (indexed xs)) = map show_nat (map fst (indexed xs))"
    by (simp add: case_prod_unfold comp_def)
  then have "map fst (map (\<lambda>(i, x). (show_nat i, x)) (indexed xs)) = map show_nat [0..<length xs]"
    by (simp only: map_fst_indexed)
  moreover have "distinct (map show_nat [0..<length xs])"
    by (simp add: distinct_map inj_on_def) (use show_nat_inj in blast)
  ultimately have "distinct (map fst (map (\<lambda>(i, x). (show_nat i, x)) (indexed xs)))" by simp
  moreover have "(show_nat i, xs ! i) \<in> set (map (\<lambda>(i, x). (show_nat i, x)) (indexed xs))"
    using indexed_nth[OF assms] by force
  ultimately show ?thesis by (rule map_of_is_SomeI)
qed

lemma get_prop_index:
  "i < length xs \<Longrightarrow> get_prop (JArray xs) (show_nat i) = Inr (xs ! i)"
  by (simp add: show_nat_not_length map_of_indexed)

lemma define_v_pass:
  assumes "validate value = Inr True"
  shows "define_v tp validate msg validations value p org =
         bindE (flatMapE (\<lambda>v. v value (Some (default_path p)) None) validations)
           (\<lambda>issues. Inr (Arr (filter (\<lambda>v. v \<noteq> Flag True) issues)))"
  using assms by (simp add: define_v_def)

lemma define_v_fail:
  assumes "validate value = Inr False"
  shows "define_v tp validate msg validations value p org =
         Inr (Arr [Iss \<lparr>message = (if msg \<noteq> [] then msg
                                     else ''Expected '' @ tp @ '', received '' @ typeof value),
                         expected = tp, received = value,
                         path = Some (default_path p),
                         origin = Some (default_origin org)\<rparr>])"
  using assms by (simp add: define_v_def)

section \<open>The leaf constructor runs every extension (C4)\<close>

text \<open>
  C4, as amended.  When the predicate of a validator built by \<open>define\<close> holds for the
  value, every entry of \<open>validations\<close> is called with the value and the (defaulted) path;
  the origin is not handed on, each entry is called without one.  All entries run, in
  insertion order: when entry \<open>v\<close> returns \<open>res v\<close>, the result is the concatenation of
  all the \<open>res v\<close>, flattened by one level, with the entries equal to \<open>true\<close> dropped.
\<close>

theorem define_runs_every_validation:
  assumes "validate value = Inr True"
      and "\<forall>v \<in> set validations. v value (Some (default_path p)) None = Inr (res v)"
  shows "define_v tp validate msg validations value p org =
         Inr (Arr (filter (\<lambda>e. e \<noteq> Flag True)
                    (concat (map (\<lambda>v. flat1 (res v)) validations))))"
proof -
  have "flatMapE (\<lambda>v. v value (Some (default_path p)) None) validations
        = Inr (concat (map (\<lambda>v. flat1 (res v)) validations))"
    by (rule flatMapE_all_return) (use assms(2) in blast)
  then show ?thesis
    using assms(1) by (simp add: define_v_pass)
qed

text \<open>
  Witness: a number validator with four extensions, called at path \<open>p\<close> with origin
  \<open>key\<close>.  The bare \<open>true\<close> is dropped, the bare \<open>false\<close> stays, and both issues
  carry the origin \<open>value\<close>.
\<close>

theorem define_runs_every_validation_witness:
  "define_v ''number'' (\<lambda>v. Inr (typeof v = ''number'')) []
     [\<lambda>v p org. Inr (Single (Flag True)), min_v 3 [], \<lambda>v p org. Inr (Single (Flag False)),
      string_v [] []]
     (JNum 1) (Some ''p'') (Some ''key'')
   = Inr (Arr [Iss \<lparr>message = ''Min 3'', expected = ''min'', received = JNum 1,
                     path = Some ''p'', origin = Some ''value''\<rparr>,
               Flag False,
               Iss \<lparr>message = ''Expected string, received number'', expected = ''string'',
                     received = JNum 1, path = Some ''p'', origin = Some ''value''\<rparr>])"
  using define_runs_every_validation
    [of "\<lambda>v. Inr (typeof v = ''number'')" "JNum 1"
        "[\<lambda>v p org. Inr (Single (Flag True)), min_v 3 [], \<lambda>v p org. Inr (Single (Flag False)),
          string_v [] []]"
        "Some ''p''" "\<lambda>v. projr (v (JNum 1) (Some ''p'') None)"
        "''number''" "[]" "Some ''key''"]
  by (simp add: min_v_def string_v_def define_v_def default_path_def default_origin_def
        show_int_def show_nat.simps digit_def)

text \<open>
  C4 as stated fails: were the entries called with the same origin as the validator, the
  extension \<open>string()\<close> of a validator called with origin \<open>key\<close> would report
  the origin \<open>key\<close>; it reports \<open>value\<close>.
\<close>

theorem define_origin_counterexample:
  "define_v ''any'' (\<lambda>v. Inr True) [] [string_v [] []] (JNum 42) (Some ''p'') (Some ''key'')
   \<noteq> bindE (flatMapE (\<lambda>v. v (JNum 42) (Some ''p'') (Some ''key'')) [string_v [] []])
       (\<lambda>issues. Inr (Arr (filter (\<lambda>v. v \<noteq> Flag True) issues)))"
  by (simp add: define_v_def string_v_def default_path_def default_origin_def)

section \<open>Strict objects stop at unexpected keys (C5)\<close>

lemma is_plain_object_JObject [simp]: "is_plain_object (JObject kvs)"
  by (simp add: is_plain_object_def)

lemma key_path_Some:
  "key_path (Some q) key = (if q = [] then key else q @ ''.'' @ key)"
  by (simp add: key_path_def tmpl_def truthy_def)

lemma index_path_Some: "index_path (Some q) i = q @ ''['' @ show_nat i @ '']''"
  by (simp add: index_path_def tmpl_def)

lemma strict_extra_keys:
  assumes "filter (\<lambda>key. key \<notin> set (map fst schema)) (map fst kvs) \<noteq> []"
  shows "strict schema msg [] (JObject kvs) p org =
     Inr (Arr [Iss \<lparr>message = ''Unexpected keys found: ''
                         @ join '', '' (filter (\<lambda>key. key \<notin> set (map fst schema)) (map fst kvs)),
                     expected = ''object'', received = JObject kvs,
                     path = Some (default_path p), origin = Some ''key''\<rparr>])"
  using assms
  by (simp add: strict_def object_def define_v_pass object_entry_def keys_def)

text \<open>
  C5.  Validating \<open>{k: "v", extra: 1}\<close> with \<open>strict({k: string()})\<close> yields exactly one
  issue, with message \<open>Unexpected keys found: extra\<close>, expected \<open>object\<close> and origin
  \<open>key\<close>.  In general, whenever the value has keys that the schema does not declare, a
  strict object returns that single issue, whatever the field validators of the schema are:
  none of them contributes to the result.
\<close>

theorem strict_extra_keys_short_circuit:
  "strict [(''k'', string_v [] [])] [] [] (JObject [(''k'', JStr ''v''), (''extra'', JNum 1)]) None None
     = Inr (Arr [Iss \<lparr>message = ''Unexpected keys found: extra'', expected = ''object'',
                       received = JObject [(''k'', JStr ''v''), (''extra'', JNum 1)],
                       path = Some [], origin = Some ''key''\<rparr>])
   \<and> (filter (\<lambda>key. key \<notin> set (map fst schema)) (map fst kvs) \<noteq> [] \<longrightarrow>
      strict schema msg [] (JObject kvs) p org =
        Inr (Arr [Iss \<lparr>message = ''Unexpected keys found: ''
                         @ join '', '' (filter (\<lambda>key. key \<notin> set (map fst schema)) (map fst kvs)),
                       expected = ''object'', received = JObject kvs,
                       path = Some (default_path p), origin = Some ''key''\<rparr>]))"
proof (intro conjI impI)
  have "filter (\<lambda>key. key \<notin> set (map fst [(''k'', string_v [] [])]))
          (map fst [(''k'', JStr ''v''), (''extra'', JNum 1)]) = [''extra'']"
    by simp
  then show "strict [(''k'', string_v [] [])] [] [] (JObject [(''k'', JStr ''v''), (''extra'', JNum 1)]) None None
     = Inr (Arr [Iss \<lparr>message = ''Unexpected keys found: extra'', expected = ''object'',
                       received = JObject [(''k'', JStr ''v''), (''extra'', JNum 1)],
                       path = Some [], origin = Some ''key''\<rparr>])"
    using strict_extra_keys[of "[(''k'', string_v [] [])]" "[(''k'', JStr ''v''), (''extra'', JNum 1)]" "[]" None None]
    by (simp add: default_path_def)
qed (rule strict_extra_keys)

text \<open>
  Witness: two unexpected keys around a declared one, and a field validator for \<open>k\<close> that
  would raise if it were called.
\<close>

theorem strict_extra_keys_short_circuit_witness:
  "strict [(''k'', \<lambda>v p org. Inl TypeError), (''n'', number [] [])] ''bad'' []
     (JObject [(''x'', JNum 1), (''k'', JStr ''v''), (''y'', JNull)]) (Some ''root'') None
   = Inr (Arr [Iss \<lparr>message = ''Unexpected keys found: x, y'', expected = ''object'',
                     received = JObject [(''x'', JNum 1), (''k'', JStr ''v''), (''y'', JNull)],
                     path = Some ''root'', origin = Some ''key''\<rparr>])"
  using strict_extra_keys_short_circuit
    [of "[(''k'', \<lambda>v p org. Inl TypeError), (''n'', number [] [])]"
        "[(''x'', JNum 1), (''k'', JStr ''v''), (''y'', JNull)]" "''bad''" "Some ''root''" None]
  by (simp add: default_path_def)

section \<open>Tuples check the length before the elements (C6)\<close>

lemma get_prop_length [simp]: "get_prop (JArray xs) ''length'' = Inr (JNum (int (length xs)))"
  by simp

lemma tuple_length_mismatch:
  assumes "length xs \<noteq> length schemas"
  shows "tuple schemas msg [] (JArray xs) p org =
     Inr (Arr [Iss \<lparr>message = ''Expected tuple of length '' @ show_nat (length schemas)
                         @ '', received '' @ show_nat (length xs),
                     expected = ''tuple'', received = JNum (int (length xs)),
                     path = Some (default_path p), origin = None\<rparr>])"
  using assms
  by (simp add: tuple_def define_v_pass tuple_entry_def show_int_def)

lemma tuple_elements:
  assumes len: "length xs = length schemas"
      and res: "\<And>i. i < length schemas \<Longrightarrow>
             (schemas ! i) (xs ! i) (Some (default_path p @ ''['' @ show_nat i @ '']'')) None = Inr (res i)"
  shows "tuple schemas msg [] (JArray xs) p org =
     Inr (Arr (filter (\<lambda>e. e \<noteq> Flag True)
                (concat (map (\<lambda>i. flat1 (res i)) [0..<length schemas]))))"
proof -
  let ?f = "\<lambda>(index, schema).
              bindE (get_prop (JArray xs) (show_nat index))
                (\<lambda>item. schema item (Some (index_path (Some (default_path p)) index)) None)"
  have "flatMapE ?f (indexed schemas)
        = Inr (concat (map (\<lambda>x. flat1 (res (fst x))) (indexed schemas)))"
  proof (rule flatMapE_all_return)
    fix x assume "x \<in> set (indexed schemas)"
    then have "fst x < length schemas \<and> snd x = schemas ! fst x"
      using indexed_mem[of "fst x" "snd x" schemas] by simp
    then obtain i where x: "x = (i, schemas ! i)" and i: "i < length schemas"
      by (cases x) simp
    show "?f x = Inr (res (fst x))"
      using i len res[OF i] by (simp add: x get_prop_index index_path_Some del: get_prop.simps)
  qed
  moreover have "map (\<lambda>x. flat1 (res (fst x))) (indexed schemas)
                 = map (\<lambda>i. flat1 (res i)) [0..<length schemas]"
    using map_fst_indexed[of schemas, symmetric] by (simp add: comp_def)
  ultimately show ?thesis
    using len by (simp add: tuple_def define_v_pass tuple_entry_def del: get_prop.simps)
qed

text \<open>
  C6.  Validating \<open>["x"]\<close> with \<open>tuple([string(), number()])\<close> yields exactly one issue,
  with expected tag \<open>tuple\<close> and received 1, the length of the array, and no issue for
  an element.  In general, an array whose length differs from the number of schemas gets
  exactly this one issue and no element is checked; when the lengths agree, element \<open>i\<close>
  is validated against \<open>schemas[i]\<close> at the path extended by \<open>[i]\<close>, and the results
  are concatenated in index order.
\<close>

theorem tuple_length_then_elements:
  "tuple [string_v [] [], number [] []] [] [] (JArray [JStr ''x'']) None None
     = Inr (Arr [Iss \<lparr>message = ''Expected tuple of length 2, received 1'',
                       expected = ''tuple'', received = JNum 1,
                       path = Some [], origin = None\<rparr>])
   \<and> (length xs \<noteq> length schemas \<longrightarrow>
        tuple schemas msg [] (JArray xs) p org =
          Inr (Arr [Iss \<lparr>message = ''Expected tuple of length '' @ show_nat (length schemas)
                              @ '', received '' @ show_nat (length xs),
                         expected = ''tuple'', received = JNum (int (length xs)),
                         path = Some (default_path p), origin = None\<rparr>]))
   \<and> (length xs = length schemas \<and>
        (\<forall>i < length schemas.
           (schemas ! i) (xs ! i) (Some (default_path p @ ''['' @ show_nat i @ '']'')) None
             = Inr (res i)) \<longrightarrow>
        tuple schemas msg [] (JArray xs) p org =
          Inr (Arr (filter (\<lambda>e. e \<noteq> Flag True)
                     (concat (map (\<lambda>i. flat1 (res i)) [0..<length schemas])))))"
proof (intro conjI impI)
  show "tuple [string_v [] [], number [] []] [] [] (JArray [JStr ''x'']) None None
     = Inr (Arr [Iss \<lparr>message = ''Expected tuple of length 2, received 1'',
                       expected = ''tuple'', received = JNum 1,
                       path = Some [], origin = None\<rparr>])"
    using tuple_length_mismatch[of "[JStr ''x'']" "[string_v [] [], number [] []]" "[]" None None]
    by (simp add: default_path_def show_nat.simps digit_def)
next
  assume "length xs \<noteq> length schemas"
  then show "tuple schemas msg [] (JArray xs) p org =
          Inr (Arr [Iss \<lparr>message = ''Expected tuple of length '' @ show_nat (length schemas)
                              @ '', received '' @ show_nat (length xs),
                         expected = ''tuple'', received = JNum (int (length xs)),
                         path = Some (default_path p), origin = None\<rparr>])"
    by (rule tuple_length_mismatch)
next
  assume "length xs = length schemas \<and>
        (\<forall>i < length schemas.
           (schemas ! i) (xs ! i) (Some (default_path p @ ''['' @ show_nat i @ '']'')) None
             = Inr (res i))"
  then show "tuple schemas msg [] (JArray xs) p org =
          Inr (Arr (filter (\<lambda>e. e \<noteq> Flag True)
                     (concat (map (\<lambda>i. flat1 (res i)) [0..<length schemas]))))"
    by (intro tuple_elements) simp_all
qed

text \<open>
  Witness: an array that is too long, and an array of the right length whose two elements
  both fail, at the paths \<open>t[0]\<close> and \<open>t[1]\<close>.
\<close>

theorem tuple_length_then_elements_witness:
  "tuple [string_v [] [], number [] []] [] [] (JArray [JNum 7, JNum 8, JNum 9]) (Some ''t'') None
     = Inr (Arr [Iss \<lparr>message = ''Expected tuple of length 2, received 3'',
                       expected = ''tuple'', received = JNum 3,
                       path = Some ''t'', origin = None\<rparr>])
   \<and> tuple [string_v [] [], number [] []] [] [] (JArray [JNum 7, JStr ''y'']) (Some ''t'') None
     = Inr (Arr [Iss \<lparr>message = ''Expected string, received number'', expected = ''string'',
                       received = JNum 7, path = Some ''t[0]'', origin = Some ''value''\<rparr>,
                 Iss \<lparr>message = ''Expected number, received string'', expected = ''number'',
                       received = JStr ''y'', path = Some ''t[1]'', origin = Some ''value''\<rparr>])"
proof -
  let ?schemas = "[string_v [] [], number [] []]"
  let ?res = "\<lambda>i. projr ((?schemas ! i) ([JNum 7, JStr ''y''] ! i)
                 (Some (default_path (Some ''t'') @ ''['' @ show_nat i @ '']'')) None)"
  from tuple_length_then_elements
         [of "[JNum 7, JNum 8, JNum 9]" ?schemas "[]" "Some ''t''" None ?res]
  have a: "tuple ?schemas [] [] (JArray [JNum 7, JNum 8, JNum 9]) (Some ''t'') None
     = Inr (Arr [Iss \<lparr>message = ''Expected tuple of length 2, received 3'',
                       expected = ''tuple'', received = JNum 3,
                       path = Some ''t'', origin = None\<rparr>])"
    by (simp add: default_path_def show_nat.simps digit_def)
  from tuple_length_then_elements
         [of "[JNum 7, JStr ''y'']" ?schemas "[]" "Some ''t''" None ?res]
  have b: "tuple ?schemas [] [] (JArray [JNum 7, JStr ''y'']) (Some ''t'') None
     = Inr (Arr [Iss \<lparr>message = ''Expected string, received number'', expected = ''string'',
                       received = JNum 7, path = Some ''t[0]'', origin = Some ''value''\<rparr>,
                 Iss \<lparr>message = ''Expected number, received string'', expected = ''number'',
                       received = JStr ''y'', path = Some ''t[1]'', origin = Some ''value''\<rparr>])"
    by (simp add: All_less_Suc default_path_def default_origin_def show_nat.simps digit_def
          string_v_def number_def define_v_def)
  from a b show ?thesis by simp
qed

section \<open>Object paths accumulate through nesting (C7)\<close>

lemma object_fields:
  assumes res: "\<And>key field. (key, field) \<in> set schema \<Longrightarrow>
             field (case map_of kvs key of None \<Rightarrow> JUndefined | Some v \<Rightarrow> v)
               (Some (if default_path p = [] then key else default_path p @ ''.'' @ key)) None
             = Inr (res key)"
  shows "object schema msg [] False (JObject kvs) p org =
     Inr (Arr (filter (\<lambda>e. e \<noteq> Flag True)
                (concat (map (\<lambda>(key, field). flat1 (res key)) schema))))"
proof -
  let ?f = "\<lambda>key. case map_of schema key of
                    None \<Rightarrow> Inl TypeError
                  | Some field \<Rightarrow>
                      bindE (get_prop (JObject kvs) key)
                        (\<lambda>v. field v (Some (key_path (Some (default_path p)) key)) None)"
  have calls: "flatMapE ?f (map fst schema)
               = Inr (concat (map (\<lambda>key. flat1 (res key)) (map fst schema)))"
  proof (rule flatMapE_all_return)
    fix key assume "key \<in> set (map fst schema)"
    then have "map_of schema key \<noteq> None"
      by (simp add: map_of_eq_None_iff)
    then obtain field where f: "map_of schema key = Some field" by blast
    then have "(key, field) \<in> set schema" by (rule map_of_SomeD)
    from res[OF this] show "?f key = Inr (res key)"
      by (simp add: f key_path_Some)
  qed
  have "map (\<lambda>key. flat1 (res key)) (map fst schema)
        = map (\<lambda>(key, field). flat1 (res key)) schema"
    by (simp add: case_prod_unfold comp_def)
  with calls have "flatMapE ?f (map fst schema)
                   = Inr (concat (map (\<lambda>(key, field). flat1 (res key)) schema))"
    by (simp only:)
  then show ?thesis
    by (simp add: object_def define_v_pass object_entry_def)
qed

text \<open>
  C7.  Validating \<open>{a: {b: "x"}}\<close> with \<open>object({a: object({b: number()})})\<close>, called
  without a path, yields exactly one issue, whose path is \<open>a.b\<close>.  A validator called
  without a path reports the empty path.  In general the validator of field \<open>key\<close> is
  called on \<open>value[key]\<close> at the path \<open>key\<close> when the object is at the empty path, and
  at the parent path, a dot and \<open>key\<close> otherwise.
\<close>

theorem object_paths_accumulate:
  "object [(''a'', object [(''b'', number [] [])] [] [] False)] [] [] False
      (JObject [(''a'', JObject [(''b'', JStr ''x'')])]) None None
     = Inr (Arr [Iss \<lparr>message = ''Expected number, received string'', expected = ''number'',
                       received = JStr ''x'', path = Some ''a.b'', origin = Some ''value''\<rparr>])
   \<and> object schema msg validations exact (JNum n) None org
     = Inr (Arr [Iss \<lparr>message = (if msg \<noteq> [] then msg else ''Expected object, received number''),
                       expected = ''object'', received = JNum n,
                       path = Some [], origin = Some (default_origin org)\<rparr>])
   \<and> ((\<forall>(key, field) \<in> set schema.
          field (case map_of kvs key of None \<Rightarrow> JUndefined | Some v \<Rightarrow> v)
            (Some (if default_path p = [] then key else default_path p @ ''.'' @ key)) None
          = Inr (res key)) \<longrightarrow>
       object schema msg [] False (JObject kvs) p org =
         Inr (Arr (filter (\<lambda>e. e \<noteq> Flag True)
                    (concat (map (\<lambda>(key, field). flat1 (res key)) schema)))))"
proof (intro conjI impI)
  let ?inner = "object [(''b'', number [] [])] [] [] False"
  let ?issue = "Iss \<lparr>message = ''Expected number, received string'', expected = ''number'',
                     received = JStr ''x'', path = Some ''a.b'', origin = Some ''value''\<rparr>"
  have inner: "?inner (JObject [(''b'', JStr ''x'')]) (Some ''a'') None = Inr (Arr [?issue])"
    using object_fields[of "[(''b'', number [] [])]" "[(''b'', JStr ''x'')]" "Some ''a''"
            "\<lambda>key. Arr [?issue]" "[]" None]
    by (simp add: default_path_def default_origin_def number_def define_v_def)
  show "object [(''a'', ?inner)] [] [] False
          (JObject [(''a'', JObject [(''b'', JStr ''x'')])]) None None = Inr (Arr [?issue])"
    using object_fields[of "[(''a'', ?inner)]" "[(''a'', JObject [(''b'', JStr ''x'')])]" None
            "\<lambda>key. Arr [?issue]" "[]" None] inner
    by (simp add: default_path_def)
next
  show "object schema msg validations exact (JNum n) None org
     = Inr (Arr [Iss \<lparr>message = (if msg \<noteq> [] then msg else ''Expected object, received number''),
                       expected = ''object'', received = JNum n,
                       path = Some [], origin = Some (default_origin org)\<rparr>])"
    by (simp add: object_def define_v_fail is_plain_object_def default_path_def)
next
  assume "\<forall>(key, field) \<in> set schema.
          field (case map_of kvs key of None \<Rightarrow> JUndefined | Some v \<Rightarrow> v)
            (Some (if default_path p = [] then key else default_path p @ ''.'' @ key)) None
          = Inr (res key)"
  then show "object schema msg [] False (JObject kvs) p org =
         Inr (Arr (filter (\<lambda>e. e \<noteq> Flag True)
                    (concat (map (\<lambda>(key, field). flat1 (res key)) schema))))"
    by (intro object_fields) blast
qed

text \<open>
  Witness: an object at the path \<open>r[0]\<close> with one field missing, one of the wrong type
  and one that the schema does not declare.
\<close>

theorem object_paths_accumulate_witness:
  "object [(''a'', string_v [] []), (''b'', number [] [])] [] [] False
      (JObject [(''b'', JBool True), (''c'', JNull)]) (Some ''r[0]'') None
     = Inr (Arr [Iss \<lparr>message = ''Expected string, received undefined'', expected = ''string'',
                       received = JUndefined, path = Some ''r[0].a'', origin = Some ''value''\<rparr>,
                 Iss \<lparr>message = ''Expected number, received boolean'', expected = ''number'',
                       received = JBool True, path = Some ''r[0].b'', origin = Some ''value''\<rparr>])"
  using object_paths_accumulate
    [of "[(''a'', string_v [] []), (''b'', number [] [])]" "[]" "[]" False 0 None
        "[(''b'', JBool True), (''c'', JNull)]" "Some ''r[0]''"
        "\<lambda>key. if key = ''a''
               then projr (string_v [] [] JUndefined (Some ''r[0].a'') None)
               else projr (number [] [] (JBool True) (Some ''r[0].b'') None)"]
  by (simp add: default_path_def default_origin_def string_v_def number_def define_v_def)

section \<open>Records validate key and value at one path (C8)\<close>

lemma define_v_default_origin:
  "define_v tp validate msg validations value p None
   = define_v tp validate msg validations value p (Some ''value'')"
proof -
  have "default_origin None = default_origin (Some ''value'')"
    by (simp add: default_origin_def)
  then show ?thesis
    unfolding define_v_def by (simp only:)
qed

text \<open>A leaf validator: built by \<open>define\<close> from a total test, with no extensions.\<close>

lemma define_v_leaf:
  "define_v tp (\<lambda>v. Inr (test v)) msg [] value p org =
     Inr (Arr (if test value then []
               else [Iss \<lparr>message = (if msg \<noteq> [] then msg
                                      else ''Expected '' @ tp @ '', received '' @ typeof value),
                          expected = tp, received = value,
                          path = Some (default_path p),
                          origin = Some (default_origin org)\<rparr>]))"
  by (simp add: define_v_def)

lemma record_entries:
  assumes res: "\<And>key val. (key, val) \<in> set kvs \<Longrightarrow>
             keySchema (JStr key)
               (Some (if default_path p = [] then key else default_path p @ ''.'' @ key))
               (Some ''key'') = Inr (Arr (kres key))
           \<and> valueSchema val
               (Some (if default_path p = [] then key else default_path p @ ''.'' @ key))
               None = Inr (Arr (vres key val))"
  shows "record_v keySchema valueSchema msg [] (JObject kvs) p org =
     Inr (Arr (filter (\<lambda>e. e \<noteq> Flag True)
                (concat (map (\<lambda>(key, val). kres key @ vres key val) kvs))))"
proof -
  let ?f = "\<lambda>(key, val).
              bindE (keySchema (JStr key) (Some (key_path (Some (default_path p)) key)) (Some ''key''))
                (\<lambda>kr. bindE (spread kr)
                (\<lambda>ks. bindE (valueSchema val (Some (key_path (Some (default_path p)) key)) None)
                (\<lambda>vr. bindE (spread vr) (\<lambda>vs. Inr (Arr (ks @ vs))))))"
  have "flatMapE ?f kvs
        = Inr (concat (map (\<lambda>x. flat1 (Arr (kres (fst x) @ vres (fst x) (snd x)))) kvs))"
  proof (rule flatMapE_all_return)
    fix x assume mem: "x \<in> set kvs"
    obtain key val where x: "x = (key, val)" by (cases x)
    with mem have "(key, val) \<in> set kvs" by simp
    from res[OF this] show "?f x = Inr (Arr (kres (fst x) @ vres (fst x) (snd x)))"
      by (simp add: x key_path_Some)
  qed
  moreover have "map (\<lambda>x. flat1 (Arr (kres (fst x) @ vres (fst x) (snd x)))) kvs
                 = map (\<lambda>(key, val). kres key @ vres key val) kvs"
    by (simp add: case_prod_unfold)
  ultimately have "flatMapE ?f kvs
                   = Inr (concat (map (\<lambda>(key, val). kres key @ vres key val) kvs))"
    by (simp only:)
  then show ?thesis
    by (simp add: record_v_def define_v_pass record_entry_def)
qed

text \<open>
  C8, as amended.  For \<open>record(keySchema, valueSchema)\<close> applied to an object, every own
  entry has its key string validated against \<open>keySchema\<close> at the path of the entry with
  origin \<open>key\<close>, and its value validated against \<open>valueSchema\<close> at the same path,
  called without an origin; the issues of the key come first, entry by entry.  When both
  schemas are leaf validators (built by \<open>define\<close>, with no extensions), the issue for the
  key and the issue for the value of one entry carry the same path, and the origins
  \<open>key\<close> and \<open>value\<close>.  Nothing is said about the origin that a combinator or an
  extension reports: they do not hand the origin on.
\<close>

theorem record_key_and_value_share_path:
  "((\<forall>(key, val) \<in> set kvs.
        keySchema (JStr key)
          (Some (if default_path p = [] then key else default_path p @ ''.'' @ key))
          (Some ''key'') = Inr (Arr (kres key))
      \<and> valueSchema val
          (Some (if default_path p = [] then key else default_path p @ ''.'' @ key))
          None = Inr (Arr (vres key val))) \<longrightarrow>
     record_v keySchema valueSchema msg [] (JObject kvs) p org =
       Inr (Arr (filter (\<lambda>e. e \<noteq> Flag True)
                  (concat (map (\<lambda>(key, val). kres key @ vres key val) kvs)))))
   \<and> record_v (define_v ktp (\<lambda>v. Inr (ktest v)) kmsg [])
               (define_v vtp (\<lambda>v. Inr (vtest v)) vmsg []) msg [] (JObject kvs) p org =
       Inr (Arr (concat (map (\<lambda>(key, val).
         (if ktest (JStr key) then []
          else [Iss \<lparr>message = (if kmsg \<noteq> [] then kmsg
                                 else ''Expected '' @ ktp @ '', received string''),
                     expected = ktp, received = JStr key,
                     path = Some (if default_path p = [] then key
                                  else default_path p @ ''.'' @ key),
                     origin = Some ''key''\<rparr>])
         @ (if vtest val then []
            else [Iss \<lparr>message = (if vmsg \<noteq> [] then vmsg
                                   else ''Expected '' @ vtp @ '', received '' @ typeof val),
                       expected = vtp, received = val,
                       path = Some (if default_path p = [] then key
                                    else default_path p @ ''.'' @ key),
                       origin = Some ''value''\<rparr>])) kvs)))"
proof (intro conjI impI)
  assume "\<forall>(key, val) \<in> set kvs.
        keySchema (JStr key)
          (Some (if default_path p = [] then key else default_path p @ ''.'' @ key))
          (Some ''key'') = Inr (Arr (kres key))
      \<and> valueSchema val
          (Some (if default_path p = [] then key else default_path p @ ''.'' @ key))
          None = Inr (Arr (vres key val))"
  then show "record_v keySchema valueSchema msg [] (JObject kvs) p org =
       Inr (Arr (filter (\<lambda>e. e \<noteq> Flag True)
                  (concat (map (\<lambda>(key, val). kres key @ vres key val) kvs))))"
    by (intro record_entries) blast
next
  let ?kp = "\<lambda>key. if default_path p = [] then key else default_path p @ ''.'' @ key"
  let ?ki = "\<lambda>key. if ktest (JStr key) then []
          else [Iss \<lparr>message = (if kmsg \<noteq> [] then kmsg
                                 else ''Expected '' @ ktp @ '', received string''),
                     expected = ktp, received = JStr key,
                     path = Some (?kp key), origin = Some ''key''\<rparr>]"
  let ?vi = "\<lambda>key val. if vtest val then []
            else [Iss \<lparr>message = (if vmsg \<noteq> [] then vmsg
                                   else ''Expected '' @ vtp @ '', received '' @ typeof val),
                       expected = vtp, received = val,
                       path = Some (?kp key), origin = Some ''value''\<rparr>]"
  have "record_v (define_v ktp (\<lambda>v. Inr (ktest v)) kmsg [])
               (define_v vtp (\<lambda>v. Inr (vtest v)) vmsg []) msg [] (JObject kvs) p org =
        Inr (Arr (filter (\<lambda>e. e \<noteq> Flag True)
                   (concat (map (\<lambda>(key, val). ?ki key @ ?vi key val) kvs))))"
    by (rule record_entries)
       (simp add: define_v_leaf default_path_def default_origin_def)
  moreover have "\<forall>e \<in> set (concat (map (\<lambda>(key, val). ?ki key @ ?vi key val) kvs)).
                   e \<noteq> Flag True"
    by (auto split: if_splits)
  then have "filter (\<lambda>e. e \<noteq> Flag True)
               (concat (map (\<lambda>(key, val). ?ki key @ ?vi key val) kvs))
             = concat (map (\<lambda>(key, val). ?ki key @ ?vi key val) kvs)"
    by (simp only: filter_id_conv)
  ultimately show "record_v (define_v ktp (\<lambda>v. Inr (ktest v)) kmsg [])
               (define_v vtp (\<lambda>v. Inr (vtest v)) vmsg []) msg [] (JObject kvs) p org =
        Inr (Arr (concat (map (\<lambda>(key, val). ?ki key @ ?vi key val) kvs)))"
    by (simp only:)
qed

text \<open>
  Witness: keys of at least two characters and numeric values.  The entry \<open>c\<close> fails on
  both sides; its two issues have the path \<open>r.c\<close> and the origins \<open>key\<close> and
  \<open>value\<close>.
\<close>

theorem record_key_and_value_share_path_witness:
  "record_v (min_v 2 []) (number [] []) [] []
      (JObject [(''ab'', JNum 1), (''c'', JStr ''x'')]) (Some ''r'') None
   = Inr (Arr [Iss \<lparr>message = ''Min 2'', expected = ''min'', received = JStr ''c'',
                     path = Some ''r.c'', origin = Some ''key''\<rparr>,
               Iss \<lparr>message = ''Expected number, received string'', expected = ''number'',
                     received = JStr ''x'', path = Some ''r.c'', origin = Some ''value''\<rparr>])"
  using record_key_and_value_share_path
    [of "[(''ab'', JNum 1), (''c'', JStr ''x'')]" "min_v 2 []" "Some ''r''"
        "\<lambda>key. flat1 (projr (min_v 2 [] (JStr key) (Some (''r.'' @ key)) (Some ''key'')))"
        "number [] []"
        "\<lambda>key val. flat1 (projr (number [] [] val (Some (''r.'' @ key)) None))"
        "[]" None "''min''" "min_test 2" "''Min 2''" "''number''"
        "\<lambda>v. typeof v = ''number''" "[]"]
  by (simp add: default_path_def default_origin_def min_v_def number_def define_v_def
        show_int_def show_nat.simps digit_def)

text \<open>
  C8 as stated fails: the issues of one entry are not always told apart by their origin.
  With the key schema \<open>and(string(), min(3))\<close> the issue for the key \<open>ab\<close> and the
  issue for its value both have the path \<open>ab\<close> and the origin \<open>value\<close>, because
  \<open>and\<close> calls its schemas without an origin.
\<close>

theorem record_key_origin_counterexample:
  "record_v (and_v [string_v [] [], min_v 3 []]) (number [] []) [] []
      (JObject [(''ab'', JStr ''x'')]) None None
   = Inr (Arr [Iss \<lparr>message = ''Min 3'', expected = ''min'', received = JStr ''ab'',
                     path = Some ''ab'', origin = Some ''value''\<rparr>,
               Iss \<lparr>message = ''Expected number, received string'', expected = ''number'',
                     received = JStr ''x'', path = Some ''ab'', origin = Some ''value''\<rparr>])"
  by (simp add: record_v_def record_entry_def and_v_def key_path_def tmpl_def truthy_def
        string_v_def min_v_def number_def define_v_def default_path_def default_origin_def
        show_int_def show_nat.simps digit_def)

section \<open>parse and safeParse (C9)\<close>

text \<open>
  C9.  \<open>safeParse\<close> answers with \<open>success\<close> exactly when \<open>parse\<close> does not raise,
  and both then hand the value back unchanged.  For a schema whose call returns an array
  of issues, as the validator contract has it: \<open>parse\<close> returns the value exactly when
  the array is empty; otherwise it raises the error that carries the array and, as its
  message, the message of the first issue, and \<open>safeParse\<close> returns a failure holding
  that same error.
\<close>

theorem parse_safeParse_agree:
  "((\<exists>r. safeParse schema value = Inr r \<and> success r) \<longleftrightarrow> (\<exists>v. parse schema value = Inr v))
   \<and> (parse schema value = Inr v \<longrightarrow> v = value)
   \<and> (safeParse schema value = Inr (Success d) \<longrightarrow> d = value)
   \<and> (schema value None None = Inr (Arr issues) \<longrightarrow>
        (parse schema value = Inr value \<longleftrightarrow> issues = [])
      \<and> (issues = [] \<longrightarrow> safeParse schema value = Inr (Success value))
      \<and> (issues \<noteq> [] \<longrightarrow>
           parse schema value = Inl (VError (first_message issues) issues)
         \<and> safeParse schema value = Inr (Failure (VError (first_message issues) issues)))
      \<and> (\<forall>i rest. issues = Iss i # rest \<longrightarrow> first_message issues = message i))"
proof (intro conjI impI)
  show "(\<exists>r. safeParse schema value = Inr r \<and> success r) \<longleftrightarrow> (\<exists>v. parse schema value = Inr v)"
    by (cases "schema value None None") (auto simp: parse_def safeParse_def)
next
  assume "parse schema value = Inr v"
  then show "v = value"
    by (cases "schema value None None") (auto simp: parse_def split: if_splits)
next
  assume "safeParse schema value = Inr (Success d)"
  then show "d = value"
    by (cases "schema value None None") (auto simp: safeParse_def split: if_splits)
next
  assume "schema value None None = Inr (Arr issues)"
  then show "parse schema value = Inr value \<longleftrightarrow> issues = []"
    by (simp add: parse_def)
next
  assume "schema value None None = Inr (Arr issues)" and "issues = []"
  then show "safeParse schema value = Inr (Success value)"
    by (simp add: safeParse_def)
next
  assume "schema value None None = Inr (Arr issues)" and "issues \<noteq> []"
  then show "parse schema value = Inl (VError (first_message issues) issues)"
    by (simp add: parse_def)
next
  assume "schema value None None = Inr (Arr issues)" and "issues \<noteq> []"
  then show "safeParse schema value = Inr (Failure (VError (first_message issues) issues))"
    by (simp add: safeParse_def)
next
  show "\<forall>i rest. issues = Iss i # rest \<longrightarrow> first_message issues = message i"
    by simp
qed

text \<open>
  Witness: a string passes \<open>string()\<close> and comes back unchanged; the number 42 fails,
  and the error carries the message of the one issue.
\<close>

theorem parse_safeParse_agree_witness:
  "parse (string_v [] []) (JStr ''ok'') = Inr (JStr ''ok'')
   \<and> safeParse (string_v [] []) (JStr ''ok'') = Inr (Success (JStr ''ok''))
   \<and> parse (string_v [] []) (JNum 42)
     = Inl (VError ''Expected string, received number''
              [Iss \<lparr>message = ''Expected string, received number'', expected = ''string'',
                    received = JNum 42, path = Some [], origin = Some ''value''\<rparr>])
   \<and> safeParse (string_v [] []) (JNum 42)
     = Inr (Failure (VError ''Expected string, received number''
              [Iss \<lparr>message = ''Expected string, received number'', expected = ''string'',
                    received = JNum 42, path = Some [], origin = Some ''value''\<rparr>]))"
proof -
  have ok: "string_v [] [] (JStr ''ok'') None None = Inr (Arr [])"
    by (simp add: string_v_def define_v_def)
  have bad: "string_v [] [] (JNum 42) None None
     = Inr (Arr [Iss \<lparr>message = ''Expected string, received number'', expected = ''string'',
                    received = JNum 42, path = Some [], origin = Some ''value''\<rparr>])"
    by (simp add: string_v_def define_v_def default_path_def default_origin_def)
  from parse_safeParse_agree[of "string_v [] []" "JStr ''ok''" "JStr ''ok''" "JStr ''ok''" "[]"]
       parse_safeParse_agree[of "string_v [] []" "JNum 42" "JNum 42" "JNum 42"
         "[Iss \<lparr>message = ''Expected string, received number'', expected = ''string'',
                received = JNum 42, path = Some [], origin = Some ''value''\<rparr>]"]
  show ?thesis by (simp add: ok bad)
qed

section \<open>transform drops path and origin (C10)\<close>

text \<open>
  C10.  The validator returned by \<open>transform(schema, transformer)\<close> takes the value
  only: whatever path and origin it is called with, it returns what \<open>schema\<close> returns
  for \<open>transformer(value)\<close> called without path and origin, which for a schema built
  by \<open>define\<close> is the call at the root path \<open>""\<close> with origin \<open>value\<close>.  So an issue
  found beneath a transform inside an object reports its path from the transform on: here
  \<open>b\<close>, not \<open>a.b\<close>.
\<close>

theorem transform_discards_path_and_origin:
  "transform schema transformer value p org = schema (transformer value) None None
   \<and> transform (define_v tp validate msg validations) transformer value p org
     = define_v tp validate msg validations (transformer value) (Some []) (Some ''value'')
   \<and> object [(''a'', transform (object [(''b'', number [] [])] [] [] False) (\<lambda>v. v))] [] [] False
        (JObject [(''a'', JObject [(''b'', JStr ''x'')])]) None None
     = Inr (Arr [Iss \<lparr>message = ''Expected number, received string'', expected = ''number'',
                       received = JStr ''x'', path = Some ''b'', origin = Some ''value''\<rparr>])"
proof (intro conjI)
  show "transform schema transformer value p org = schema (transformer value) None None"
    by (simp add: transform_def)
next
  have "default_path None = default_path (Some [])" "default_origin None = default_origin (Some ''value'')"
    by (simp_all add: default_path_def default_origin_def)
  then show "transform (define_v tp validate msg validations) transformer value p org
     = define_v tp validate msg validations (transformer value) (Some []) (Some ''value'')"
    unfolding transform_def define_v_def by (simp only:)
next
  let ?inner = "object [(''b'', number [] [])] [] [] False"
  let ?issue = "Iss \<lparr>message = ''Expected number, received string'', expected = ''number'',
                     received = JStr ''x'', path = Some ''b'', origin = Some ''value''\<rparr>"
  have inner: "?inner (JObject [(''b'', JStr ''x'')]) None None = Inr (Arr [?issue])"
    using object_fields[of "[(''b'', number [] [])]" "[(''b'', JStr ''x'')]" None
            "\<lambda>key. Arr [?issue]" "[]" None]
    by (simp add: default_path_def default_origin_def number_def define_v_def)
  show "object [(''a'', transform ?inner (\<lambda>v. v))] [] [] False
          (JObject [(''a'', JObject [(''b'', JStr ''x'')])]) None None = Inr (Arr [?issue])"
    using object_fields[of "[(''a'', transform ?inner (\<lambda>v. v))]"
            "[(''a'', JObject [(''b'', JStr ''x'')])]" None "\<lambda>key. Arr [?issue]" "[]" None] inner
    by (simp add: default_path_def transform_def)
qed

text \<open>
  Witness: a transform called at a deep path with origin \<open>key\<close> reports the root path
  and the origin \<open>value\<close>.
\<close>

theorem transform_discards_path_and_origin_witness:
  "transform (string_v [] []) (\<lambda>v. JNum 1) (JStr ''s'') (Some ''deep.path'') (Some ''key'')
   = Inr (Arr [Iss \<lparr>message = ''Expected string, received number'', expected = ''string'',
                     received = JNum 1, path = Some [], origin = Some ''value''\<rparr>])"
  using transform_discards_path_and_origin
    [of "string_v [] []" "\<lambda>v. JNum 1" "JStr ''s''" "Some ''deep.path''" "Some ''key''"
        "''string''" "\<lambda>value. Inr (typeof value = ''string'')" "[]" "[]"]
  by (simp add: string_v_def define_v_def default_path_def default_origin_def)

section \<open>and runs every schema (C3)\<close>

lemma and_v_returns:
  assumes "\<And>s. s \<in> set schemas \<Longrightarrow> s value p None = Inr (res s)"
  shows "and_v schemas value p org = Inr (Arr (concat (map (\<lambda>s. flat1 (res s)) schemas)))"
  using flatMapE_all_return[of schemas "\<lambda>schema. schema value p None" res] assms
  by (simp add: and_v_def)

lemma string_v_on_number:
  "string_v [] [] (JNum n) p org =
     Inr (Arr [Iss \<lparr>message = ''Expected string, received number'', expected = ''string'',
                     received = JNum n, path = Some (default_path p),
                     origin = Some (default_origin org)\<rparr>])"
  by (simp add: string_v_def define_v_def)

lemma min_v_on_number:
  "min_v m [] (JNum n) p org =
     (if n \<ge> m then Inr (Arr [])
      else Inr (Arr [Iss \<lparr>message = ''Min '' @ show_int m, expected = ''min'',
                          received = JNum n, path = Some (default_path p),
                          origin = Some (default_origin org)\<rparr>]))"
  by (simp add: min_v_def define_v_def)

text \<open>
  C3, as amended.  \<open>and(string(), min(3))\<close> applied to 42 returns exactly one issue: 42 is
  not a string, and \<open>min(3)\<close> passes, because it compares a number itself with the
  bound and \<open>42 >= 3\<close>.  In general \<open>and\<close> calls every schema, whatever the earlier
  ones returned, and returns the concatenation of their results in order, which is empty
  exactly when every schema contributes nothing.
\<close>

theorem and_concatenates_all_issues:
  "and_v [string_v [] [], min_v 3 []] (JNum 42) p org
     = Inr (Arr [Iss \<lparr>message = ''Expected string, received number'', expected = ''string'',
                       received = JNum 42, path = Some (default_path p),
                       origin = Some ''value''\<rparr>])
   \<and> min_v 3 [] (JNum 42) p None = Inr (Arr [])
   \<and> ((\<forall>s \<in> set schemas. s value p None = Inr (res s)) \<longrightarrow>
        and_v schemas value p org = Inr (Arr (concat (map (\<lambda>s. flat1 (res s)) schemas)))
      \<and> (concat (map (\<lambda>s. flat1 (res s)) schemas) = [] \<longleftrightarrow>
           (\<forall>s \<in> set schemas. flat1 (res s) = [])))"
proof (intro conjI impI)
  show "and_v [string_v [] [], min_v 3 []] (JNum 42) p org
     = Inr (Arr [Iss \<lparr>message = ''Expected string, received number'', expected = ''string'',
                       received = JNum 42, path = Some (default_path p),
                       origin = Some ''value''\<rparr>])"
    by (simp add: and_v_def string_v_on_number min_v_on_number default_origin_def)
next
  show "min_v 3 [] (JNum 42) p None = Inr (Arr [])"
    by (simp add: min_v_on_number)
next
  assume "\<forall>s \<in> set schemas. s value p None = Inr (res s)"
  then show "and_v schemas value p org = Inr (Arr (concat (map (\<lambda>s. flat1 (res s)) schemas)))"
    by (intro and_v_returns) blast
next
  show "concat (map (\<lambda>s. flat1 (res s)) schemas) = [] \<longleftrightarrow>
           (\<forall>s \<in> set schemas. flat1 (res s) = [])"
    by simp
qed

text \<open>
  Witness: four schemas on 42; the first and the last fail, and both issues are returned.
\<close>

theorem and_concatenates_all_issues_witness:
  "and_v [string_v [] [], min_v 3 [], number [] [], min_v 50 []] (JNum 42) (Some ''q'') (Some ''key'')
     = Inr (Arr [Iss \<lparr>message = ''Expected string, received number'', expected = ''string'',
                       received = JNum 42, path = Some ''q'', origin = Some ''value''\<rparr>,
                 Iss \<lparr>message = ''Min 50'', expected = ''min'',
                       received = JNum 42, path = Some ''q'', origin = Some ''value''\<rparr>])"
  using and_concatenates_all_issues
    [of "Some ''q''" "Some ''key''" "[string_v [] [], min_v 3 [], number [] [], min_v 50 []]"
        "JNum 42" "\<lambda>s. projr (s (JNum 42) (Some ''q'') None)"]
  by (simp add: string_v_on_number min_v_on_number number_def define_v_def
        default_path_def default_origin_def show_int_def show_nat.simps digit_def)

text \<open>C3 as stated fails: the call does not return two issues.\<close>

theorem and_two_issues_counterexample:
  "\<not> (\<exists>issues. and_v [string_v [] [], min_v 3 []] (JNum 42) None None = Inr (Arr issues)
                 \<and> length issues = 2)"
  by (simp add: and_v_def string_v_on_number min_v_on_number)

section \<open>optional and nullable (C2)\<close>

text \<open>
  The TypeScript variant delegates: with no extensions of its own it returns what the
  wrapped schema returns at the same path and origin.
\<close>

lemma optional_ts_delegates:
  "optional_ts schema msg [] JUndefined p org = Inr (Arr [])"
  "value \<noteq> JUndefined \<Longrightarrow> schema value p org = Inr (Arr issues) \<Longrightarrow>
     optional_ts schema msg [] value p org = schema value p org"
  "nullable_ts schema msg [] JNull p org = Inr (Arr [])"
  "value \<noteq> JNull \<Longrightarrow> schema value p org = Inr (Arr issues) \<Longrightarrow>
     nullable_ts schema msg [] value p org = schema value p org"
  by (simp_all add: optional_ts_def nullable_ts_def concat_v_def)

lemma define_v_plain:
  "define_v tp validate [] [] value p org =
     bindE (validate value) (\<lambda>ok.
       Inr (Arr (if ok then []
                 else [Iss \<lparr>message = ''Expected '' @ tp @ '', received '' @ typeof value,
                            expected = tp, received = value,
                            path = Some (default_path p),
                            origin = Some (default_origin org)\<rparr>])))"
  by (cases "validate value") (simp_all add: define_v_def)

lemma bindE_assoc: "bindE (bindE m f) g = bindE m (\<lambda>x. bindE (f x) g)"
  by (cases m) simp_all

text \<open>
  C2, as amended.  \<open>optional(schema)\<close> is built by \<open>define\<close> with the type tag
  \<open>optional\<close>: \<open>undefined\<close> yields no issues; any other value yields no issues
  exactly when \<open>schema\<close>, called on the value without path and origin, returns an
  empty array, and otherwise yields one issue of its own, tagged \<open>optional\<close>, at the
  path and origin that \<open>optional\<close> was called with.  The issues of the wrapped schema
  are not returned.  \<open>nullable\<close> does the same with \<open>null\<close> and the tag
  \<open>nullable\<close>.
\<close>

theorem optional_reports_one_issue:
  "optional schema [] [] value p org =
     (if value = JUndefined then Inr (Arr [])
      else bindE (schema value None None) (\<lambda>r.
             Inr (Arr (if length_is_0 r then []
                       else [Iss \<lparr>message = ''Expected optional, received '' @ typeof value,
                                  expected = ''optional'', received = value,
                                  path = Some (default_path p),
                                  origin = Some (default_origin org)\<rparr>]))))
   \<and> nullable schema [] [] value p org =
     (if value = JNull then Inr (Arr [])
      else bindE (schema value None None) (\<lambda>r.
             Inr (Arr (if length_is_0 r then []
                       else [Iss \<lparr>message = ''Expected nullable, received '' @ typeof value,
                                  expected = ''nullable'', received = value,
                                  path = Some (default_path p),
                                  origin = Some (default_origin org)\<rparr>]))))"
proof (intro conjI)
  show "optional schema [] [] value p org =
     (if value = JUndefined then Inr (Arr [])
      else bindE (schema value None None) (\<lambda>r.
             Inr (Arr (if length_is_0 r then []
                       else [Iss \<lparr>message = ''Expected optional, received '' @ typeof value,
                                  expected = ''optional'', received = value,
                                  path = Some (default_path p),
                                  origin = Some (default_origin org)\<rparr>]))))"
    unfolding optional_def define_v_plain
    by (cases "value = JUndefined") (simp_all add: bindE_assoc cong: if_cong)
next
  show "nullable schema [] [] value p org =
     (if value = JNull then Inr (Arr [])
      else bindE (schema value None None) (\<lambda>r.
             Inr (Arr (if length_is_0 r then []
                       else [Iss \<lparr>message = ''Expected nullable, received '' @ typeof value,
                                  expected = ''nullable'', received = value,
                                  path = Some (default_path p),
                                  origin = Some (default_origin org)\<rparr>]))))"
    unfolding nullable_def define_v_plain
    by (cases "value = JNull") (simp_all add: bindE_assoc cong: if_cong)
qed

text \<open>Witness: \<open>optional(string())\<close> and \<open>nullable(string())\<close> at path \<open>p\<close>, origin \<open>key\<close>.\<close>

theorem optional_reports_one_issue_witness:
  "optional (string_v [] []) [] [] JUndefined (Some ''p'') (Some ''key'') = Inr (Arr [])
   \<and> optional (string_v [] []) [] [] (JStr ''s'') (Some ''p'') (Some ''key'') = Inr (Arr [])
   \<and> optional (string_v [] []) [] [] (JNum 42) (Some ''p'') (Some ''key'')
     = Inr (Arr [Iss \<lparr>message = ''Expected optional, received number'',
                       expected = ''optional'', received = JNum 42,
                       path = Some ''p'', origin = Some ''key''\<rparr>])
   \<and> nullable (string_v [] []) [] [] JNull (Some ''p'') (Some ''key'') = Inr (Arr [])
   \<and> nullable (string_v [] []) [] [] JUndefined (Some ''p'') (Some ''key'')
     = Inr (Arr [Iss \<lparr>message = ''Expected nullable, received undefined'',
                       expected = ''nullable'', received = JUndefined,
                       path = Some ''p'', origin = Some ''key''\<rparr>])"
  using optional_reports_one_issue[of "string_v [] []" JUndefined "Some ''p''" "Some ''key''"]
        optional_reports_one_issue[of "string_v [] []" "JStr ''s''" "Some ''p''" "Some ''key''"]
        optional_reports_one_issue[of "string_v [] []" "JNum 42" "Some ''p''" "Some ''key''"]
        optional_reports_one_issue[of "string_v [] []" JNull "Some ''p''" "Some ''key''"]
  by (simp add: string_v_def define_v_def default_path_def default_origin_def)

text \<open>
  C2 as stated fails: on 42, \<open>optional(string())\<close> does not return the issue of
  \<open>string()\<close>.
\<close>

theorem optional_delegation_counterexample:
  "optional (string_v [] []) [] [] (JNum 42) (Some ''p'') (Some ''key'')
   \<noteq> string_v [] [] (JNum 42) (Some ''p'') (Some ''key'')"
  by (simp add: optional_def string_v_def define_v_def)

section \<open>or compares the number of issues with the number of schemas (C1)\<close>

text \<open>What \<open>or\<close> returns when no alternative raises.\<close>

lemma or_v_returns:
  assumes "\<And>s. s \<in> set schemas \<Longrightarrow> s value p None = Inr (res s)"
  shows "or_v schemas value p org =
         Inr (Arr (if length (concat (map (\<lambda>s. flat1 (res s)) schemas)) = length schemas
                   then concat (map (\<lambda>s. flat1 (res s)) schemas) else []))"
  using flatMapE_all_return[of schemas "\<lambda>schema. schema value p None" res] assms
  by (simp add: or_v_def)

text \<open>
  C1.  The claim is that \<open>or\<close> returns all issues exactly when every alternative
  failed, and nothing when some alternative passed.  The source compares the number of
  issues with the number of schemas instead, so the two differ as soon as an alternative
  reports more than one issue.  On \<open>[1, 2]\<close>: \<open>array(string())\<close> reports two issues and
  \<open>number()\<close> one, no alternative passes, and \<open>or\<close> of the two returns nothing;
  \<open>array(number())\<close> passes, and \<open>or(array(string()), array(number()))\<close> returns the
  two issues of the first alternative.
\<close>

theorem or_compares_issue_count:
  "array (string_v [] []) [] [] (JArray [JNum 1, JNum 2]) None None
     = Inr (Arr [Iss \<lparr>message = ''Expected string, received number'', expected = ''string'',
                       received = JNum 1, path = Some ''[0]'', origin = Some ''value''\<rparr>,
                 Iss \<lparr>message = ''Expected string, received number'', expected = ''string'',
                       received = JNum 2, path = Some ''[1]'', origin = Some ''value''\<rparr>])
   \<and> number [] [] (JArray [JNum 1, JNum 2]) None None
     = Inr (Arr [Iss \<lparr>message = ''Expected number, received object'', expected = ''number'',
                       received = JArray [JNum 1, JNum 2], path = Some [],
                       origin = Some ''value''\<rparr>])
   \<and> or_v [array (string_v [] []) [] [], number [] []] (JArray [JNum 1, JNum 2]) None None
     = Inr (Arr [])
   \<and> array (number [] []) [] [] (JArray [JNum 1, JNum 2]) None None = Inr (Arr [])
   \<and> or_v [array (string_v [] []) [] [], array (number [] []) [] []]
        (JArray [JNum 1, JNum 2]) None None
     = Inr (Arr [Iss \<lparr>message = ''Expected string, received number'', expected = ''string'',
                       received = JNum 1, path = Some ''[0]'', origin = Some ''value''\<rparr>,
                 Iss \<lparr>message = ''Expected string, received number'', expected = ''string'',
                       received = JNum 2, path = Some ''[1]'', origin = Some ''value''\<rparr>])"
proof -
  have idx: "indexed [JNum 1, JNum 2] = [(0, JNum 1), (Suc 0, JNum 2)]"
    by (simp add: indexed_def upt_rec)
  have sn: "show_nat 0 = ''0''" "show_nat (Suc 0) = ''1''"
    by (simp_all add: show_nat.simps digit_def)
  have a: "array (string_v [] []) [] [] (JArray [JNum 1, JNum 2]) None None
     = Inr (Arr [Iss \<lparr>message = ''Expected string, received number'', expected = ''string'',
                       received = JNum 1, path = Some ''[0]'', origin = Some ''value''\<rparr>,
                 Iss \<lparr>message = ''Expected string, received number'', expected = ''string'',
                       received = JNum 2, path = Some ''[1]'', origin = Some ''value''\<rparr>])"
    by (simp add: array_def define_v_pass array_entry_def idx sn index_path_Some
          string_v_on_number default_path_def default_origin_def)
  have b: "number [] [] (JArray [JNum 1, JNum 2]) None None
     = Inr (Arr [Iss \<lparr>message = ''Expected number, received object'', expected = ''number'',
                       received = JArray [JNum 1, JNum 2], path = Some [],
                       origin = Some ''value''\<rparr>])"
    by (simp add: number_def define_v_def default_path_def default_origin_def)
  have c: "array (number [] []) [] [] (JArray [JNum 1, JNum 2]) None None = Inr (Arr [])"
    by (simp add: array_def define_v_pass array_entry_def idx number_def define_v_def)
  show ?thesis
    by (simp add: or_v_def a b c)
qed

text \<open>The example of the specification, where every failing alternative reports one issue.\<close>

lemma or_spec_example:
  "or_v [string_v [] [], number [] []] (JBool True) None None
     = Inr (Arr [Iss \<lparr>message = ''Expected string, received boolean'', expected = ''string'',
                       received = JBool True, path = Some [], origin = Some ''value''\<rparr>,
                 Iss \<lparr>message = ''Expected number, received boolean'', expected = ''number'',
                       received = JBool True, path = Some [], origin = Some ''value''\<rparr>])
   \<and> or_v [string_v [] [], number [] []] (JStr ''x'') None None = Inr (Arr [])"
  by (simp add: or_v_def string_v_def number_def define_v_def default_path_def default_origin_def)

end
